theory Spec2Isabelle
  imports Main "HOL-Library.Word"
begin

section \<open>Rob's INDI focuser: the motion controller of \<open>FocuserRob\<close>\<close>

text \<open>
  A shallow embedding of the driver class \<open>FocuserRob\<close> (the version with the TB6612FNG
  motor driver: private helpers \<open>oneTick\<close> to \<open>move\<close>, and the public operations
  \<open>SetFocuserSpeed\<close>, \<open>TimerHit\<close>, \<open>MoveFocuser\<close>, \<open>MoveAbsFocuser\<close>, \<open>MoveRelFocuser\<close>
  and \<open>AbortFocuser\<close>).

  \<^item> The object is a record. Its fields are the member variables of the class
    (\<open>gTicksElapsed\<close>, \<open>gPollTimerMs\<close>, \<open>gTicksRequired\<close>, \<open>gDirectionIsOutward\<close>), the
    fields of the inherited INDI number properties that the code reads and writes, the
    levels of the four GPIO lines, and the list of calls made to the outside (GPIO
    writes, sleeps, timer requests, messages to the client).
  \<^item> \<open>uint32_t\<close>, \<open>int32_t\<close> and \<open>int\<close> are \<open>32 word\<close>, \<open>uint16_t\<close> is \<open>16 word\<close>; a signed
    variable is read with \<open>sint\<close>, an unsigned one with \<open>uint\<close>. Unsigned arithmetic wraps
    around, as in C++. Signed negation and multiplication wrap around in two's complement,
    as the target machine does; the properties below that depend on a signed result
    exclude the one value (\<open>INT32_MIN\<close>) whose negation overflows.
  \<^item> The value, minimum and maximum of an INDI number are C doubles. The driver only
    ever stores whole numbers of small magnitude in them, on which double arithmetic is
    exact, so they are \<open>int\<close> here. A conversion from double to an integer type whose
    value does not fit the target type has no defined result in C++: it is a \<open>fault\<close>,
    and a function that meets one returns \<open>Inl\<close>.
  \<^item> Not modelled: the capability flags, \<open>wiringXSetup\<close> and \<open>pinMode\<close> of the constructor,
    the minimum, maximum and step of the relative position, and what the base class
    \<open>INDI::Focuser\<close> does on its own.
\<close>

subsection \<open>Types\<close>

datatype IPState = IPS_IDLE | IPS_OK | IPS_BUSY | IPS_ALERT

datatype FocusDirection = FOCUS_INWARD | FOCUS_OUTWARD

datatype pin = IN1_TB6612FNG | IN2_TB6612FNG | PWM_TB6612FNG | STBY_TB6612FNG

datatype property = FocusTimerNP | FocusAbsPosNP | FocusRelPosNP | FocusSpeedNP

datatype event =
    DigitalWrite pin bool
  | Usleep nat
  | SetTimerEv nat
  | IDMessageEv string
  | IDSetNumberEv property "string option"

datatype fault = Division_by_zero | Conversion_out_of_range

record focuser =
  gTicksElapsed :: "32 word"
  gPollTimerMs :: "16 word"
  gTicksRequired :: "32 word"
  gDirectionIsOutward :: bool
  FocusAbsPos_value :: int
  FocusAbsPos_min :: int
  FocusAbsPos_max :: int
  FocusRelPos_value :: int
  FocusSpeed_value :: int
  FocusSpeed_min :: int
  FocusSpeed_max :: int
  FocusTimerNP_s :: IPState
  FocusAbsPosNP_s :: IPState
  FocusRelPosNP_s :: IPState
  FocusSpeedNP_s :: IPState
  isConnected :: bool
  level_IN1 :: bool
  level_IN2 :: bool
  level_PWM :: bool
  level_STBY :: bool
  out :: "event list"

subsection \<open>Constants of the driver\<close>

definition MIN_POLL_TIMER_MS :: nat where
  "MIN_POLL_TIMER_MS = 10"

definition MIN_PWM_HIGH_TIME_MS :: nat where
  "MIN_PWM_HIGH_TIME_MS = 1"

subsection \<open>Calls to the outside\<close>

definition emit :: "event list \<Rightarrow> focuser \<Rightarrow> focuser" where
  "emit es s = s\<lparr>out := out s @ es\<rparr>"

fun digitalWrite :: "pin \<Rightarrow> bool \<Rightarrow> focuser \<Rightarrow> focuser" where
  "digitalWrite IN1_TB6612FNG v s = emit [DigitalWrite IN1_TB6612FNG v] (s\<lparr>level_IN1 := v\<rparr>)"
| "digitalWrite IN2_TB6612FNG v s = emit [DigitalWrite IN2_TB6612FNG v] (s\<lparr>level_IN2 := v\<rparr>)"
| "digitalWrite PWM_TB6612FNG v s = emit [DigitalWrite PWM_TB6612FNG v] (s\<lparr>level_PWM := v\<rparr>)"
| "digitalWrite STBY_TB6612FNG v s = emit [DigitalWrite STBY_TB6612FNG v] (s\<lparr>level_STBY := v\<rparr>)"

definition usleep :: "nat \<Rightarrow> focuser \<Rightarrow> focuser" where
  "usleep n s = emit [Usleep n] s"

definition SetTimer :: "nat \<Rightarrow> focuser \<Rightarrow> focuser" where
  "SetTimer ms s = emit [SetTimerEv ms] s"

definition IDMessage :: "string \<Rightarrow> focuser \<Rightarrow> focuser" where
  "IDMessage msg s = emit [IDMessageEv msg] s"

definition IDSetNumber :: "property \<Rightarrow> string option \<Rightarrow> focuser \<Rightarrow> focuser" where
  "IDSetNumber p msg s = emit [IDSetNumberEv p msg] s"

subsection \<open>C arithmetic\<close>

text \<open>Integer division of C truncates towards zero.\<close>

definition c_div :: "int \<Rightarrow> int \<Rightarrow> int" where
  "c_div a b = sgn a * sgn b * (\<bar>a\<bar> div \<bar>b\<bar>)"

text \<open>
  Conversion of a double to an integer type drops the fractional part; the arguments
  below are already whole numbers. A value outside the target type is a fault.
\<close>

definition double_to_uint16 :: "int \<Rightarrow> fault + 16 word" where
  "double_to_uint16 v =
     (if 0 \<le> v \<and> v < 2 ^ 16 then Inr (word_of_int v) else Inl Conversion_out_of_range)"

definition double_to_uint32 :: "int \<Rightarrow> fault + 32 word" where
  "double_to_uint32 v =
     (if 0 \<le> v \<and> v < 2 ^ 32 then Inr (word_of_int v) else Inl Conversion_out_of_range)"

definition double_to_int32 :: "int \<Rightarrow> fault + 32 word" where
  "double_to_int32 v =
     (if - (2 ^ 31) \<le> v \<and> v < 2 ^ 31 then Inr (word_of_int v) else Inl Conversion_out_of_range)"

text \<open>
  \<open>uint16_t delayMs = 1000 / FocusSpeedN[0].value\<close>: a double division, then the
  conversion to \<open>uint16_t\<close>. For a whole-numbered speed the truncated quotient is the
  truncating integer quotient. A speed of zero has no quotient.
\<close>

definition delay_of_speed :: "int \<Rightarrow> fault + 16 word" where
  "delay_of_speed speed =
     (if speed = 0 then Inl Division_by_zero else double_to_uint16 (c_div 1000 speed))"

subsection \<open>Private functions of the focuser\<close>

definition oneTick :: "nat \<Rightarrow> focuser \<Rightarrow> focuser" where
  "oneTick highTimeMs s =
     digitalWrite PWM_TB6612FNG False (usleep highTimeMs (digitalWrite PWM_TB6612FNG True s))"

definition setDirection :: "bool \<Rightarrow> focuser \<Rightarrow> focuser" where
  "setDirection isOutward s =
     (let s1 = s\<lparr>gDirectionIsOutward := False\<rparr> in
      if isOutward then
        digitalWrite IN2_TB6612FNG True
          (digitalWrite IN1_TB6612FNG False (s1\<lparr>gDirectionIsOutward := True\<rparr>))
      else
        digitalWrite IN2_TB6612FNG False (digitalWrite IN1_TB6612FNG True s1))"

definition setShortBreak :: "focuser \<Rightarrow> focuser" where
  "setShortBreak s = digitalWrite IN2_TB6612FNG True (digitalWrite IN1_TB6612FNG True s)"

definition setStop :: "focuser \<Rightarrow> focuser" where
  "setStop s =
     digitalWrite PWM_TB6612FNG True
       (digitalWrite IN2_TB6612FNG False
         (digitalWrite IN1_TB6612FNG False
           (digitalWrite PWM_TB6612FNG False s)))"

definition setStandby :: "bool \<Rightarrow> focuser \<Rightarrow> focuser" where
  "setStandby isOn s =
     (if isOn then digitalWrite STBY_TB6612FNG False s else digitalWrite STBY_TB6612FNG True s)"

definition setVariablesAfterMove :: "32 word \<Rightarrow> focuser \<Rightarrow> focuser" where
  "setVariablesAfterMove relativeTicks s =
     (let r = (if gDirectionIsOutward s then - relativeTicks else relativeTicks) in
      IDSetNumber FocusRelPosNP None
        (IDSetNumber FocusAbsPosNP None
          (s\<lparr>FocusAbsPos_value := FocusAbsPos_value s + sint r,
             FocusRelPos_value := sint r\<rparr>)))"

definition AbortFocuser :: "focuser \<Rightarrow> bool \<times> focuser" where
  "AbortFocuser s =
     (let s1 = setStandby True (setStop s);
          s2 = (if gTicksRequired s1 > 0
                then (setVariablesAfterMove (gTicksRequired s1 - gTicksElapsed s1) s1)
                       \<lparr>gTicksRequired := 0\<rparr>
                else s1);
          s3 = s2\<lparr>FocusTimerNP_s := IPS_IDLE, FocusAbsPosNP_s := IPS_IDLE,
                  FocusRelPosNP_s := IPS_IDLE\<rparr>
      in (True,
          IDSetNumber FocusRelPosNP None
            (IDSetNumber FocusAbsPosNP None
              (IDSetNumber FocusTimerNP None s3))))"

text \<open>
  The loop of the synchronous move, \<open>for (int32_t x = 0; x < relativeTicks; x++)\<close>:
  one tick and one sleep per round.
\<close>

function move_loop :: "32 word \<Rightarrow> 32 word \<Rightarrow> focuser \<Rightarrow> focuser" where
  "move_loop x relativeTicks s =
     (if sint x < sint relativeTicks
      then move_loop (x + 1) relativeTicks
             (usleep (MIN_POLL_TIMER_MS - MIN_PWM_HIGH_TIME_MS) (oneTick MIN_PWM_HIGH_TIME_MS s))
      else s)"
  by pat_completeness auto

termination move_loop
proof (relation "measure (\<lambda>(x, r, s). nat (sint r - sint x))")
  show "wf (measure (\<lambda>(x, r, s). nat (sint r - sint x)))"
    by simp
next
  fix x relativeTicks :: "32 word" and s :: focuser
  assume less: "sint x < sint relativeTicks"
  have "sint relativeTicks < 2 ^ 31"
    using sint_lt [of relativeTicks] by simp
  moreover have "- (2 ^ 31) \<le> sint x"
    using sint_ge [of x] by simp
  ultimately have "- (2 ^ 31) \<le> sint x + 1 \<and> sint x + 1 < 2 ^ 31"
    using less by linarith
  then have "sint (x + 1) = sint x + 1"
    by (simp add: sint_word_ariths signed_take_bit_int_eq_self)
  with less show
    "((x + 1, relativeTicks,
       usleep (MIN_POLL_TIMER_MS - MIN_PWM_HIGH_TIME_MS) (oneTick MIN_PWM_HIGH_TIME_MS s)),
      (x, relativeTicks, s)) \<in> measure (\<lambda>(x, r, s). nat (sint r - sint x))"
    by simp
qed

declare move_loop.simps [simp del]

definition move :: "32 word \<Rightarrow> focuser \<Rightarrow> fault + IPState \<times> focuser" where
  "move relativeTicks s =
     (case delay_of_speed (FocusSpeed_value s) of
        Inl f \<Rightarrow> Inl f
      | Inr delayMs \<Rightarrow>
         (let s1 = (if gTicksRequired s \<noteq> 0 then snd (AbortFocuser s) else s);
              s2 = IDMessage ''Moving to requested position...'' s1;
              s3 = setDirection (sint relativeTicks < 0) s2;
              n = (if gDirectionIsOutward s3 then - relativeTicks else relativeTicks);
              s4 = setStandby False s3
          in if unat delayMs < MIN_POLL_TIMER_MS then
               Inr (IPS_OK,
                    setVariablesAfterMove n (setStandby True (setStop (move_loop 0 n s4))))
             else
               Inr (IPS_BUSY,
                    (oneTick MIN_PWM_HIGH_TIME_MS
                       (SetTimer (unat delayMs)
                          (s4\<lparr>gPollTimerMs := delayMs, gTicksRequired := n\<rparr>)))
                      \<lparr>gTicksElapsed := 1\<rparr>)))"

subsection \<open>Public functions of the focuser\<close>

text \<open>
  The constructor and \<open>initProperties\<close>. The members they do not set (the states of the
  properties, the connection flag) belong to the base class and keep the value they had.
\<close>

definition FocuserRob :: "focuser \<Rightarrow> focuser" where
  "FocuserRob s =
     setStandby True
       (setStop (s\<lparr>gTicksElapsed := 0, gTicksRequired := 0, gDirectionIsOutward := False\<rparr>))"

definition initProperties :: "focuser \<Rightarrow> focuser" where
  "initProperties s =
     s\<lparr>FocusSpeed_min := 1, FocusSpeed_max := 255, FocusSpeed_value := 100,
       FocusAbsPos_min := 0, FocusAbsPos_max := 60000,
       FocusAbsPos_value := (0 + 60000) div 2,
       FocusRelPos_value := 0\<rparr>"

definition Connect :: "focuser \<Rightarrow> bool \<times> focuser" where
  "Connect s = (True, IDMessage ''Connected.'' s)"

definition Disconnect :: "focuser \<Rightarrow> bool \<times> focuser" where
  "Disconnect s = (True, IDMessage ''Disconnected.'' (snd (AbortFocuser s)))"

definition busy :: "focuser \<Rightarrow> bool" where
  "busy s \<longleftrightarrow>
     FocusTimerNP_s s = IPS_BUSY \<or> FocusAbsPosNP_s s = IPS_BUSY \<or> FocusRelPosNP_s s = IPS_BUSY"

definition SetFocuserSpeed :: "32 word \<Rightarrow> focuser \<Rightarrow> bool \<times> focuser" where
  "SetFocuserSpeed speed s =
     (if sint speed \<noteq> FocusSpeed_value s then
        if busy s then
          (False, IDMessage ''Can't set the speed while the motor is running.'' s)
        else if sint speed < FocusSpeed_min s \<or> sint speed > FocusSpeed_max s then
          (False, IDMessage ''Error, requested speed is out of range.'' s)
        else
          (True,
           IDSetNumber FocusSpeedNP (Some ''Speed set.'')
             (s\<lparr>FocusSpeed_value := sint speed, FocusSpeedNP_s := IPS_OK\<rparr>))
      else (True, s))"

definition TimerHit :: "focuser \<Rightarrow> focuser" where
  "TimerHit s =
     (if isConnected s then
        if gTicksRequired s > 0 then
          if gTicksElapsed s < gTicksRequired s then
            (oneTick MIN_PWM_HIGH_TIME_MS (SetTimer (unat (gPollTimerMs s)) s))
              \<lparr>gTicksElapsed := gTicksElapsed s + 1\<rparr>
          else snd (AbortFocuser s)
        else s
      else s)"

text \<open>
  The local variable \<open>relativeTicks\<close> of \<open>MoveFocuser\<close>:
  \<open>(speed * duration) / 1000\<close> in \<open>int\<close> arithmetic, then \<open>relativeTicks -= relativeTicks\<close>
  for the outward direction.
\<close>

definition MoveFocuser_relativeTicks :: "FocusDirection \<Rightarrow> 32 word \<Rightarrow> 16 word \<Rightarrow> 32 word" where
  "MoveFocuser_relativeTicks dir speed duration =
     (let relativeTicks = (word_of_int (c_div (sint (speed * ucast duration)) 1000) :: 32 word)
      in if dir = FOCUS_OUTWARD then relativeTicks - relativeTicks else relativeTicks)"

definition MoveFocuser ::
  "FocusDirection \<Rightarrow> 32 word \<Rightarrow> 16 word \<Rightarrow> focuser \<Rightarrow> fault + IPState \<times> focuser" where
  "MoveFocuser dir speed duration s =
     (case SetFocuserSpeed speed s of
        (False, s1) \<Rightarrow> Inr (IPS_ALERT, s1)
      | (True, s1) \<Rightarrow>
         (let relativeTicks = MoveFocuser_relativeTicks dir speed duration;
              plannedAbsPos = FocusAbsPos_value s1 + sint relativeTicks
          in if plannedAbsPos < FocusAbsPos_min s1 \<or> plannedAbsPos > FocusAbsPos_max s1 then
               Inr (IPS_ALERT, IDMessage ''Error, requested position is out of range.'' s1)
             else move relativeTicks s1))"

definition MoveAbsFocuser :: "32 word \<Rightarrow> focuser \<Rightarrow> fault + IPState \<times> focuser" where
  "MoveAbsFocuser targetTicks s =
     (if uint targetTicks \<noteq> FocusAbsPos_value s then
        if uint targetTicks < FocusAbsPos_min s \<or> uint targetTicks > FocusAbsPos_max s then
          Inr (IPS_ALERT, IDMessage ''Error, requested position is out of range.'' s)
        else
          (case double_to_int32 (uint targetTicks - FocusAbsPos_value s) of
             Inl f \<Rightarrow> Inl f
           | Inr relativeTicks \<Rightarrow> move relativeTicks s)
      else Inr (IPS_ALERT, s))"

definition MoveRelFocuser ::
  "FocusDirection \<Rightarrow> 32 word \<Rightarrow> focuser \<Rightarrow> fault + IPState \<times> focuser" where
  "MoveRelFocuser dir ticks s =
     (case double_to_uint32
             (FocusAbsPos_value s + uint (ticks * (if dir = FOCUS_INWARD then - 1 else 1))) of
        Inl f \<Rightarrow> Inl f
      | Inr targetTicks \<Rightarrow> MoveAbsFocuser targetTicks s)"

subsection \<open>Reachable states\<close>

text \<open>
  The object is constructed, \<open>initProperties\<close> runs, and from then on the framework calls
  the public functions one at a time. The base class \<open>INDI::Focuser\<close> is not part of
  the driver: it sets the states of the properties from the results of the calls and
  keeps the connection flag, so a step of the framework may give these any value.
\<close>

inductive reachable :: "focuser \<Rightarrow> bool" where
  startup: "reachable (initProperties (FocuserRob s))"
| framework: "reachable s \<Longrightarrow>
     reachable (s\<lparr>FocusTimerNP_s := t, FocusAbsPosNP_s := a, FocusRelPosNP_s := r,
                  FocusSpeedNP_s := v, isConnected := c\<rparr>)"
| connect: "reachable s \<Longrightarrow> reachable (snd (Connect s))"
| disconnect: "reachable s \<Longrightarrow> reachable (snd (Disconnect s))"
| set_speed: "reachable s \<Longrightarrow> reachable (snd (SetFocuserSpeed speed s))"
| timer_hit: "reachable s \<Longrightarrow> reachable (TimerHit s)"
| abort: "reachable s \<Longrightarrow> reachable (snd (AbortFocuser s))"
| move_timed: "reachable s \<Longrightarrow> MoveFocuser dir speed duration s = Inr (st, s') \<Longrightarrow> reachable s'"
| move_abs: "reachable s \<Longrightarrow> MoveAbsFocuser targetTicks s = Inr (st, s') \<Longrightarrow> reachable s'"
| move_rel: "reachable s \<Longrightarrow> MoveRelFocuser dir ticks s = Inr (st, s') \<Longrightarrow> reachable s'"

subsection \<open>Notions used by the properties\<close>

text \<open>
  The driver chip is at rest when both inputs are low with PWM high (the "stop" row of the
  TB6612FNG table) and STBY is low (standby). This is what \<open>setStop\<close> followed by
  \<open>setStandby(true)\<close> leaves on the lines.
\<close>

definition stopped_in_standby :: "focuser \<Rightarrow> bool" where
  "stopped_in_standby s \<longleftrightarrow>
     \<not> level_IN1 s \<and> \<not> level_IN2 s \<and> level_PWM s \<and> \<not> level_STBY s"

definition properties_idle :: "focuser \<Rightarrow> bool" where
  "properties_idle s \<longleftrightarrow>
     FocusTimerNP_s s = IPS_IDLE \<and> FocusAbsPosNP_s s = IPS_IDLE \<and> FocusRelPosNP_s s = IPS_IDLE"

text \<open>
  What the constructor and \<open>initProperties\<close> set up and no function changes: the range of
  the speed with the configured speed inside it, and the range of the position.
\<close>

definition configured :: "focuser \<Rightarrow> bool" where
  "configured s \<longleftrightarrow>
     FocusSpeed_min s = 1 \<and> FocusSpeed_max s = 255
     \<and> 1 \<le> FocusSpeed_value s \<and> FocusSpeed_value s \<le> 255
     \<and> FocusAbsPos_min s = 0 \<and> FocusAbsPos_max s = 60000"

text \<open>
  The order of the two counters while \<open>gTicksRequired\<close> is not zero, the test that
  \<open>TimerHit\<close>, \<open>move\<close> and \<open>AbortFocuser\<close> make before they touch a move in progress. It says
  nothing about a state with \<open>gTicksRequired = 0\<close>, and a timer-driven move of zero ticks
  is such a state.
\<close>

definition counters_ordered :: "focuser \<Rightarrow> bool" where
  "counters_ordered s \<longleftrightarrow>
     (gTicksRequired s > 0 \<longrightarrow> 0 \<le> gTicksElapsed s \<and> gTicksElapsed s \<le> gTicksRequired s)"

text \<open>
  What a rejected request must leave alone: the position and the relative position, the
  four lines of the chip, and the variables of a move in progress.
\<close>

definition unmoved :: "focuser \<Rightarrow> focuser \<Rightarrow> bool" where
  "unmoved s s' \<longleftrightarrow>
     FocusAbsPos_value s' = FocusAbsPos_value s \<and> FocusRelPos_value s' = FocusRelPos_value s
     \<and> level_STBY s' = level_STBY s \<and> level_IN1 s' = level_IN1 s
     \<and> level_IN2 s' = level_IN2 s \<and> level_PWM s' = level_PWM s
     \<and> gTicksRequired s' = gTicksRequired s \<and> gTicksElapsed s' = gTicksElapsed s
     \<and> gDirectionIsOutward s' = gDirectionIsOutward s"

text \<open>The calls to the outside made by \<open>setDirection\<close>, \<open>setStop\<close> and \<open>oneTick(1)\<close>.\<close>

definition direction_calls :: "bool \<Rightarrow> event list" where
  "direction_calls isOutward =
     (if isOutward
      then [DigitalWrite IN1_TB6612FNG False, DigitalWrite IN2_TB6612FNG True]
      else [DigitalWrite IN1_TB6612FNG True, DigitalWrite IN2_TB6612FNG False])"

definition stop_calls :: "event list" where
  "stop_calls =
     [DigitalWrite PWM_TB6612FNG False, DigitalWrite IN1_TB6612FNG False,
      DigitalWrite IN2_TB6612FNG False, DigitalWrite PWM_TB6612FNG True]"

definition pulse_calls :: "event list" where
  "pulse_calls =
     [DigitalWrite PWM_TB6612FNG True, Usleep 1, DigitalWrite PWM_TB6612FNG False]"

text \<open>The calls to the outside made by an abort that finds no move in progress.\<close>

definition abort_calls :: "event list" where
  "abort_calls =
     [DigitalWrite PWM_TB6612FNG False, DigitalWrite IN1_TB6612FNG False,
      DigitalWrite IN2_TB6612FNG False, DigitalWrite PWM_TB6612FNG True,
      DigitalWrite STBY_TB6612FNG False,
      IDSetNumberEv FocusTimerNP None, IDSetNumberEv FocusAbsPosNP None,
      IDSetNumberEv FocusRelPosNP None]"

text \<open>
  A concrete object for the examples: all members zero, the properties idle, the client
  connected, nothing sent yet; then the constructor and \<open>initProperties\<close>.
\<close>

definition blank :: focuser where
  "blank =
     \<lparr>gTicksElapsed = 0, gPollTimerMs = 0, gTicksRequired = 0, gDirectionIsOutward = False,
      FocusAbsPos_value = 0, FocusAbsPos_min = 0, FocusAbsPos_max = 0, FocusRelPos_value = 0,
      FocusSpeed_value = 0, FocusSpeed_min = 0, FocusSpeed_max = 0,
      FocusTimerNP_s = IPS_IDLE, FocusAbsPosNP_s = IPS_IDLE, FocusRelPosNP_s = IPS_IDLE,
      FocusSpeedNP_s = IPS_IDLE, isConnected = True,
      level_IN1 = False, level_IN2 = False, level_PWM = False, level_STBY = False, out = []\<rparr>"

definition start :: focuser where
  "start = initProperties (FocuserRob blank)"

text \<open>
  The object after a request to go to 30005 from there: at the initial speed of 100 the
  delay is 10 ms, so the move is left to the timer.
\<close>

definition after_request :: focuser where
  "after_request = (case MoveAbsFocuser 30005 start of Inr (st, s) \<Rightarrow> s | Inl f \<Rightarrow> start)"

text \<open>The initial object with the position one tick below the maximum.\<close>

definition near_end :: focuser where
  "near_end = start\<lparr>FocusAbsPos_value := 59999\<rparr>"

text \<open>
  The object after \<open>MoveFocuser(FOCUS_INWARD, 100, 5)\<close> from the initial one: 100 ticks per
  second for 5 ms is zero ticks, and at speed 100 the move is left to the timer.
\<close>

definition zero_tick :: focuser where
  "zero_tick = (case MoveFocuser FOCUS_INWARD 100 5 start of Inr (st, s) \<Rightarrow> s | Inl f \<Rightarrow> start)"

text \<open>
  A request to go to 0 from the initial object, replaced while in progress by a request
  to go to 1, and then aborted.
\<close>

definition outward_request :: focuser where
  "outward_request = (case MoveAbsFocuser 0 start of Inr (st, s) \<Rightarrow> s | Inl f \<Rightarrow> start)"

definition replaced_request :: focuser where
  "replaced_request =
     (case MoveAbsFocuser 1 outward_request of Inr (st, s) \<Rightarrow> s | Inl f \<Rightarrow> start)"

definition below_minimum :: focuser where
  "below_minimum = snd (AbortFocuser replaced_request)"

section \<open>Properties\<close>

lemmas call_defs = emit_def usleep_def SetTimer_def IDMessage_def IDSetNumber_def

lemmas driver_defs = oneTick_def setDirection_def setStop_def setStandby_def

lemmas start_defs = start_def blank_def initProperties_def FocuserRob_def

lemmas more_defs = direction_calls_def stop_calls_def pulse_calls_def
  MIN_POLL_TIMER_MS_def MIN_PWM_HIGH_TIME_MS_def

lemmas eval_defs = MoveAbsFocuser_def move_def double_to_int32_def
  delay_of_speed_def double_to_uint16_def c_div_def AbortFocuser_def
  setVariablesAfterMove_def start_defs driver_defs call_defs more_defs Let_def

subsection \<open>Machine arithmetic\<close>

lemma sint_neg32:
  fixes r :: "32 word"
  assumes "- (2 ^ 31) < sint r"
  shows "sint (- r) = - sint r"
proof -
  have "sint r < 2 ^ 31" using sint_lt [of r] by simp
  with assms have "- (2 ^ 31) \<le> - sint r \<and> - sint r < 2 ^ 31" by linarith
  then show ?thesis
    by (simp add: sint_word_minus signed_take_bit_int_eq_self)
qed

lemma uint_eq_sint32:
  fixes n :: "32 word"
  assumes "0 \<le> sint n"
  shows "uint n = sint n"
proof -
  have "sint n < 2 ^ 32" using sint_lt [of n] by simp
  with assms show ?thesis
    by (simp add: uint_sint take_bit_int_eq_self)
qed

lemma sint_abs32:
  fixes r :: "32 word"
  assumes "- (2 ^ 31) < sint r"
  shows "sint (if sint r < 0 then - r else r) = \<bar>sint r\<bar>"
  using assms by (simp add: sint_neg32)

lemma delay_of_speed_pos:
  assumes "1 \<le> v"
  shows "delay_of_speed v = Inr (word_of_int (1000 div v))"
    and "uint (word_of_int (1000 div v) :: 16 word) = 1000 div v"
proof -
  have q: "0 \<le> 1000 div v" using assms by (simp add: pos_imp_zdiv_nonneg_iff)
  have "1000 div v \<le> 1000 div 1" using assms by (intro zdiv_mono2) simp_all
  then have le: "1000 div v \<le> 1000" by simp
  from assms have "c_div 1000 v = 1000 div v" by (simp add: c_div_def)
  with q le assms show "delay_of_speed v = Inr (word_of_int (1000 div v))"
    by (simp add: delay_of_speed_def double_to_uint16_def)
  from q le show "uint (word_of_int (1000 div v) :: 16 word) = 1000 div v"
    by (simp add: uint_word_of_int)
qed



subsection \<open>The effect of the helpers on the fields\<close>

lemma move_loop_eq:
  "move_loop x r s =
     s\<lparr>level_PWM := (if sint x < sint r then False else level_PWM s),
       out := out s @ concat (replicate (nat (sint r - sint x)) (pulse_calls @ [Usleep 9]))\<rparr>"
proof (induction x r s rule: move_loop.induct)
  case (1 x r s)
  show ?case
  proof (cases "sint x < sint r")
    case False
    then show ?thesis by (subst move_loop.simps) simp
  next
    case True
    have "sint r < 2 ^ 31" using sint_lt [of r] by simp
    moreover have "- (2 ^ 31) \<le> sint x" using sint_ge [of x] by simp
    ultimately have "- (2 ^ 31) \<le> sint x + 1 \<and> sint x + 1 < 2 ^ 31"
      using True by linarith
    then have succ: "sint (x + 1) = sint x + 1"
      by (simp add: sint_word_ariths signed_take_bit_int_eq_self)
    from True have count: "nat (sint r - sint x) = Suc (nat (sint r - (sint x + 1)))"
      by linarith
    show ?thesis
      apply (subst move_loop.simps)
      apply (simp only: True if_True "1.IH" [OF True] succ count)
      apply (simp add: oneTick_def call_defs pulse_calls_def MIN_POLL_TIMER_MS_def MIN_PWM_HIGH_TIME_MS_def)
      done
  qed
qed

lemma AbortFocuser_clears:
  "gTicksRequired (snd (AbortFocuser s)) = 0"
  by (simp add: AbortFocuser_def setVariablesAfterMove_def driver_defs call_defs Let_def word_gt_0)

lemma setDirection_flag:
  "gDirectionIsOutward (setDirection b s) = b"
  by (simp add: driver_defs call_defs Let_def)

lemma prepare_fields:
  "out (setStandby False (setDirection b (IDMessage m s))) =
     out s @ [IDMessageEv m] @ direction_calls b @ [DigitalWrite STBY_TB6612FNG True]"
  "gDirectionIsOutward (setStandby False (setDirection b (IDMessage m s))) = b"
  "gTicksRequired (setStandby False (setDirection b (IDMessage m s))) = gTicksRequired s"
  "FocusAbsPos_value (setStandby False (setDirection b (IDMessage m s))) = FocusAbsPos_value s"
  "FocusRelPos_value (setStandby False (setDirection b (IDMessage m s))) = FocusRelPos_value s"
  by (simp_all add: driver_defs call_defs more_defs Let_def)

lemma sync_fields:
  "out (setVariablesAfterMove n (setStandby True (setStop (move_loop 0 n s)))) =
     out s @ concat (replicate (nat (sint n)) (pulse_calls @ [Usleep 9]))
       @ stop_calls @ [DigitalWrite STBY_TB6612FNG False]
       @ [IDSetNumberEv FocusAbsPosNP None, IDSetNumberEv FocusRelPosNP None]"
  "stopped_in_standby (setVariablesAfterMove n (setStandby True (setStop (move_loop 0 n s))))"
  "gTicksRequired (setVariablesAfterMove n (setStandby True (setStop (move_loop 0 n s)))) =
     gTicksRequired s"
  "FocusAbsPos_value (setVariablesAfterMove n (setStandby True (setStop (move_loop 0 n s)))) =
     FocusAbsPos_value s + sint (if gDirectionIsOutward s then - n else n)"
  "FocusRelPos_value (setVariablesAfterMove n (setStandby True (setStop (move_loop 0 n s)))) =
     sint (if gDirectionIsOutward s then - n else n)"
  by (simp_all add: move_loop_eq setVariablesAfterMove_def driver_defs call_defs more_defs
      stopped_in_standby_def Let_def)

lemma async_fields:
  "gTicksRequired (oneTick h (SetTimer t (s\<lparr>gPollTimerMs := d, gTicksRequired := n\<rparr>))) = n"
  "gPollTimerMs (oneTick h (SetTimer t (s\<lparr>gPollTimerMs := d, gTicksRequired := n\<rparr>))) = d"
  "out (oneTick h (SetTimer t (s\<lparr>gPollTimerMs := d, gTicksRequired := n\<rparr>))) =
     out s @ [SetTimerEv t, DigitalWrite PWM_TB6612FNG True, Usleep h,
              DigitalWrite PWM_TB6612FNG False]"
  "FocusAbsPos_value (oneTick h (SetTimer t (s\<lparr>gPollTimerMs := d, gTicksRequired := n\<rparr>))) =
     FocusAbsPos_value s"
  "FocusRelPos_value (oneTick h (SetTimer t (s\<lparr>gPollTimerMs := d, gTicksRequired := n\<rparr>))) =
     FocusRelPos_value s"
  by (simp_all add: driver_defs call_defs)

lemma move_unfold:
  assumes speed: "1 \<le> FocusSpeed_value s"
  shows "move r s =
     (let s0 = (if gTicksRequired s \<noteq> 0 then snd (AbortFocuser s) else s);
          s4 = setStandby False (setDirection (sint r < 0)
                 (IDMessage ''Moving to requested position...'' s0));
          n = (if sint r < 0 then - r else r) in
      if 1000 div FocusSpeed_value s < 10 then
         Inr (IPS_OK, setVariablesAfterMove n (setStandby True (setStop (move_loop 0 n s4))))
      else Inr (IPS_BUSY,
              (oneTick 1 (SetTimer (nat (1000 div FocusSpeed_value s))
                    (s4\<lparr>gPollTimerMs := word_of_int (1000 div FocusSpeed_value s),
                        gTicksRequired := n\<rparr>)))
                \<lparr>gTicksElapsed := 1\<rparr>))"
proof -
  note d = delay_of_speed_pos [OF speed]
  have u: "unat (word_of_int (1000 div FocusSpeed_value s) :: 16 word)
             = nat (1000 div FocusSpeed_value s)"
    by (simp add: unat_eq_nat_uint d(2))
  have q: "0 \<le> 1000 div FocusSpeed_value s"
    using speed by (simp add: pos_imp_zdiv_nonneg_iff)
  have lt: "nat (1000 div FocusSpeed_value s) < 10 \<longleftrightarrow> 1000 div FocusSpeed_value s < 10"
    using q by linarith
  show ?thesis
    unfolding move_def d(1) Let_def sum.case u lt setDirection_flag
      MIN_POLL_TIMER_MS_def MIN_PWM_HIGH_TIME_MS_def
    by (rule refl)
qed



subsection \<open>Execution of a move\<close>

text \<open>
  C4. A call of \<open>move\<close> with a signed tick count other than \<open>INT32_MIN\<close>, at a configured
  speed of at least 1, with \<open>n\<close> the magnitude of the count and \<open>delayMs = 1000 / speed\<close>.
  A move in progress is aborted first; \<open>s0\<close> is the state this leaves.
  If \<open>delayMs < 10\<close> the move is done in the call: \<open>n\<close> pulses (each followed by the
  sleep of 9), then stop and standby, the signed count added to the position and stored
  as the relative position, result \<open>IPS_OK\<close>, no move in progress afterwards.
  Otherwise \<open>gTicksRequired = n\<close>, \<open>gTicksElapsed = 1\<close>, \<open>gPollTimerMs = delayMs\<close>, the timer is
  set to \<open>delayMs\<close>, one pulse is issued, the result is \<open>IPS_BUSY\<close>, and the position and
  the relative position are those of \<open>s0\<close>.
\<close>

theorem move_sync_or_async:
  assumes speed: "1 \<le> FocusSpeed_value s"
    and range: "- (2 ^ 31) < sint relativeTicks"
  shows
    "let s0 = (if gTicksRequired s \<noteq> 0 then snd (AbortFocuser s) else s);
         n = \<bar>sint relativeTicks\<bar>;
         delayMs = 1000 div FocusSpeed_value s
     in if delayMs < 10 then
          (\<exists>s'. move relativeTicks s = Inr (IPS_OK, s')
             \<and> out s' =
                 out s0 @ [IDMessageEv ''Moving to requested position...'']
                   @ direction_calls (sint relativeTicks < 0)
                   @ [DigitalWrite STBY_TB6612FNG True]
                   @ concat (replicate (nat n) (pulse_calls @ [Usleep 9]))
                   @ stop_calls @ [DigitalWrite STBY_TB6612FNG False]
                   @ [IDSetNumberEv FocusAbsPosNP None, IDSetNumberEv FocusRelPosNP None]
             \<and> stopped_in_standby s'
             \<and> gTicksRequired s' = 0
             \<and> FocusAbsPos_value s' = FocusAbsPos_value s0 + sint relativeTicks
             \<and> FocusRelPos_value s' = sint relativeTicks)
        else
          (\<exists>s'. move relativeTicks s = Inr (IPS_BUSY, s')
             \<and> uint (gTicksRequired s') = n
             \<and> gTicksElapsed s' = 1
             \<and> uint (gPollTimerMs s') = delayMs
             \<and> out s' =
                 out s0 @ [IDMessageEv ''Moving to requested position...'']
                   @ direction_calls (sint relativeTicks < 0)
                   @ [DigitalWrite STBY_TB6612FNG True]
                   @ [SetTimerEv (nat delayMs)] @ pulse_calls
             \<and> FocusAbsPos_value s' = FocusAbsPos_value s0
             \<and> FocusRelPos_value s' = FocusRelPos_value s0)"
proof -
  define s0 where "s0 = (if gTicksRequired s \<noteq> 0 then snd (AbortFocuser s) else s)"
  define n where "n = (if sint relativeTicks < 0 then - relativeTicks else relativeTicks)"
  have cleared: "gTicksRequired s0 = 0"
    by (simp add: s0_def AbortFocuser_clears)
  have sn: "sint n = \<bar>sint relativeTicks\<bar>"
    unfolding n_def using range by (rule sint_abs32)
  then have un: "uint n = \<bar>sint relativeTicks\<bar>"
    by (simp add: uint_eq_sint32)
  have orig: "(if sint relativeTicks < 0 then - n else n) = relativeTicks"
    by (simp add: n_def)
  have delay: "uint (word_of_int (1000 div FocusSpeed_value s) :: 16 word)
                 = 1000 div FocusSpeed_value s"
    by (rule delay_of_speed_pos(2) [OF speed])
  have m: "move relativeTicks s =
     (if 1000 div FocusSpeed_value s < 10 then
         Inr (IPS_OK, setVariablesAfterMove n (setStandby True (setStop (move_loop 0 n
           (setStandby False (setDirection (sint relativeTicks < 0)
                 (IDMessage ''Moving to requested position...'' s0)))))))
      else Inr (IPS_BUSY,
              (oneTick 1 (SetTimer (nat (1000 div FocusSpeed_value s))
                    ((setStandby False (setDirection (sint relativeTicks < 0)
                        (IDMessage ''Moving to requested position...'' s0)))
                       \<lparr>gPollTimerMs := word_of_int (1000 div FocusSpeed_value s),
                        gTicksRequired := n\<rparr>)))
                \<lparr>gTicksElapsed := 1\<rparr>))"
    unfolding move_unfold [OF speed] Let_def s0_def n_def by (rule refl)
  show ?thesis
  proof (cases "1000 div FocusSpeed_value s < 10")
    case True
    then show ?thesis
      unfolding Let_def s0_def [symmetric]
      by (simp add: m sync_fields prepare_fields cleared sn orig)
  next
    case False
    then show ?thesis
      unfolding Let_def s0_def [symmetric]
      by (simp add: m async_fields prepare_fields un delay pulse_calls_def)
  qed
qed

theorem move_sync_or_async_witness:
  "1 \<le> FocusSpeed_value start \<and> - (2 ^ 31) < sint (5 :: 32 word)
   \<and> (\<exists>s'. move 5 start = Inr (IPS_BUSY, s')
          \<and> uint (gTicksRequired s') = 5 \<and> gTicksElapsed s' = 1
          \<and> uint (gPollTimerMs s') = 10
          \<and> FocusAbsPos_value s' = 30000 \<and> FocusRelPos_value s' = 0)
   \<and> 1 \<le> FocusSpeed_value (start\<lparr>FocusSpeed_value := 200\<rparr>)
   \<and> - (2 ^ 31) < sint (- 3 :: 32 word)
   \<and> (\<exists>s'. move (- 3) (start\<lparr>FocusSpeed_value := 200\<rparr>) = Inr (IPS_OK, s')
          \<and> out s' =
              out start @ [IDMessageEv ''Moving to requested position...'']
                @ direction_calls True @ [DigitalWrite STBY_TB6612FNG True]
                @ pulse_calls @ [Usleep 9] @ pulse_calls @ [Usleep 9] @ pulse_calls @ [Usleep 9]
                @ stop_calls @ [DigitalWrite STBY_TB6612FNG False]
                @ [IDSetNumberEv FocusAbsPosNP None, IDSetNumberEv FocusRelPosNP None]
          \<and> stopped_in_standby s' \<and> gTicksRequired s' = 0
          \<and> FocusAbsPos_value s' = 29997 \<and> FocusRelPos_value s' = - 3)"
  using move_sync_or_async [of start 5]
    move_sync_or_async [of "start\<lparr>FocusSpeed_value := 200\<rparr>" "- 3"]
  by (simp add: start_defs driver_defs call_defs Let_def numeral_3_eq_3) blast

subsection \<open>What holds in every reachable state\<close>

lemma move_result:
  assumes "move r s = Inr (st, s')"
  shows "\<exists>d s0. delay_of_speed (FocusSpeed_value s) = Inr d
     \<and> s0 = setStandby False (setDirection (sint r < 0)
               (IDMessage ''Moving to requested position...''
                  (if gTicksRequired s \<noteq> 0 then snd (AbortFocuser s) else s)))
     \<and> (st = IPS_OK \<and>
          s' = setVariablesAfterMove (if sint r < 0 then - r else r)
                 (setStandby True (setStop (move_loop 0 (if sint r < 0 then - r else r) s0)))
        \<or> st = IPS_BUSY \<and>
          s' = (oneTick 1 (SetTimer (unat d)
                  (s0\<lparr>gPollTimerMs := d,
                      gTicksRequired := (if sint r < 0 then - r else r)\<rparr>)))
                 \<lparr>gTicksElapsed := 1\<rparr>)"
proof (cases "delay_of_speed (FocusSpeed_value s)")
  case (Inl f)
  with assms show ?thesis by (simp add: move_def)
next
  case (Inr d)
  with assms show ?thesis
    unfolding move_def Let_def setDirection_flag MIN_POLL_TIMER_MS_def MIN_PWM_HIGH_TIME_MS_def
    by (simp split: if_splits split del: if_split) 
qed

lemma configured_emit [simp]: "configured (emit es s) = configured s"
  by (simp add: configured_def emit_def)

lemma configured_digitalWrite [simp]: "configured (digitalWrite p v s) = configured s"
  by (cases p) (simp_all add: configured_def emit_def)

lemma configured_calls [simp]:
  "configured (usleep n s) = configured s"
  "configured (SetTimer t s) = configured s"
  "configured (IDMessage m s) = configured s"
  "configured (IDSetNumber p msg s) = configured s"
  by (simp_all add: usleep_def SetTimer_def IDMessage_def IDSetNumber_def)

lemma configured_updates [simp]:
  "configured (s\<lparr>gTicksElapsed := e\<rparr>) = configured s"
  "configured (s\<lparr>gTicksRequired := n\<rparr>) = configured s"
  "configured (s\<lparr>gPollTimerMs := d\<rparr>) = configured s"
  "configured (s\<lparr>gDirectionIsOutward := b\<rparr>) = configured s"
  "configured (s\<lparr>FocusAbsPos_value := x\<rparr>) = configured s"
  "configured (s\<lparr>FocusRelPos_value := x\<rparr>) = configured s"
  "configured (s\<lparr>FocusTimerNP_s := t\<rparr>) = configured s"
  "configured (s\<lparr>FocusAbsPosNP_s := t\<rparr>) = configured s"
  "configured (s\<lparr>FocusRelPosNP_s := t\<rparr>) = configured s"
  "configured (s\<lparr>FocusSpeedNP_s := t\<rparr>) = configured s"
  "configured (s\<lparr>isConnected := c\<rparr>) = configured s"
  "configured (s\<lparr>level_IN1 := l\<rparr>) = configured s"
  "configured (s\<lparr>level_IN2 := l\<rparr>) = configured s"
  "configured (s\<lparr>level_PWM := l\<rparr>) = configured s"
  "configured (s\<lparr>level_STBY := l\<rparr>) = configured s"
  "configured (s\<lparr>out := es\<rparr>) = configured s"
  by (simp_all add: configured_def)

lemma configured_driver [simp]:
  "configured (oneTick h s) = configured s"
  "configured (setDirection b s) = configured s"
  "configured (setStop s) = configured s"
  "configured (setStandby b s) = configured s"
  "configured (setVariablesAfterMove n s) = configured s"
  by (simp_all add: driver_defs setVariablesAfterMove_def Let_def)

lemma configured_move_loop [simp]: "configured (move_loop x n s) = configured s"
  by (simp add: move_loop_eq configured_def)

lemma configured_AbortFocuser [simp]: "configured (snd (AbortFocuser s)) = configured s"
  by (simp add: AbortFocuser_def Let_def)

lemma configured_TimerHit [simp]: "configured (TimerHit s) = configured s"
  by (simp add: TimerHit_def)

lemma configured_SetFocuserSpeed:
  "configured s \<Longrightarrow> configured (snd (SetFocuserSpeed speed s))"
  by (simp add: SetFocuserSpeed_def) (simp add: configured_def)

lemma configured_move:
  assumes "move r s = Inr (st, s')" and "configured s"
  shows "configured s'"
  using move_result [OF assms(1)] assms(2) by auto

lemma configured_MoveFocuser:
  assumes "MoveFocuser dir speed duration s = Inr (st, s')" and "configured s"
  shows "configured s'"
proof (cases "fst (SetFocuserSpeed speed s)")
  case False
  with assms(1) have "s' = snd (SetFocuserSpeed speed s)"
    by (simp add: MoveFocuser_def split: prod.splits bool.splits)
  with assms(2) show ?thesis by (simp add: configured_SetFocuserSpeed)
next
  case True
  from assms(2) have c: "configured (snd (SetFocuserSpeed speed s))"
    by (rule configured_SetFocuserSpeed)
  from True assms(1) have
    "s' = IDMessage ''Error, requested position is out of range.'' (snd (SetFocuserSpeed speed s))
     \<or> move (MoveFocuser_relativeTicks dir speed duration) (snd (SetFocuserSpeed speed s))
          = Inr (st, s')"
    by (simp add: MoveFocuser_def Let_def split: prod.splits bool.splits if_splits)
  with c show ?thesis by (auto intro: configured_move)
qed

lemma configured_MoveAbsFocuser:
  assumes "MoveAbsFocuser t s = Inr (st, s')" and "configured s"
  shows "configured s'"
  using assms
  by (auto simp add: MoveAbsFocuser_def split: if_splits sum.splits intro: configured_move)

lemma configured_MoveRelFocuser:
  assumes "MoveRelFocuser dir t s = Inr (st, s')" and "configured s"
  shows "configured s'"
  using assms
  by (auto simp add: MoveRelFocuser_def split: sum.splits intro: configured_MoveAbsFocuser)

lemma reachable_configured: "reachable s \<Longrightarrow> configured s"
proof (induction rule: reachable.induct)
  case (startup s)
  show ?case by (simp add: initProperties_def configured_def)
next
  case (set_speed s speed)
  then show ?case by (simp add: configured_SetFocuserSpeed)
next
  case (move_timed s dir speed duration st s')
  then show ?case by (blast intro: configured_MoveFocuser)
next
  case (move_abs s targetTicks st s')
  then show ?case by (blast intro: configured_MoveAbsFocuser)
next
  case (move_rel s dir ticks st s')
  then show ?case by (blast intro: configured_MoveRelFocuser)
qed (simp_all add: Connect_def Disconnect_def)

lemma counters_ordered_AbortFocuser: "counters_ordered (snd (AbortFocuser s))"
  by (simp add: counters_ordered_def AbortFocuser_clears)

lemma counters_ordered_TimerHit:
  "counters_ordered s \<Longrightarrow> counters_ordered (TimerHit s)"
  by (simp add: TimerHit_def counters_ordered_AbortFocuser)
     (simp add: counters_ordered_def driver_defs call_defs inc_le)

lemma counters_ordered_SetFocuserSpeed:
  "counters_ordered s \<Longrightarrow> counters_ordered (snd (SetFocuserSpeed speed s))"
  by (simp add: SetFocuserSpeed_def call_defs counters_ordered_def)

lemma counters_ordered_move:
  assumes "move r s = Inr (st, s')"
  shows "counters_ordered s'"
proof -
  from move_result [OF assms] obtain d s0 where
    s0: "s0 = setStandby False (setDirection (sint r < 0)
               (IDMessage ''Moving to requested position...''
                  (if gTicksRequired s \<noteq> 0 then snd (AbortFocuser s) else s)))"
    and s': "s' = setVariablesAfterMove (if sint r < 0 then - r else r)
                 (setStandby True (setStop (move_loop 0 (if sint r < 0 then - r else r) s0)))
        \<or> s' = (oneTick 1 (SetTimer (unat d)
                  (s0\<lparr>gPollTimerMs := d,
                      gTicksRequired := (if sint r < 0 then - r else r)\<rparr>)))
                 \<lparr>gTicksElapsed := 1\<rparr>"
    by blast
  have "gTicksRequired s0 = 0"
    unfolding s0 prepare_fields by (simp add: AbortFocuser_clears)
  with s' show ?thesis
  proof (elim disjE)
    assume "s' = (oneTick 1 (SetTimer (unat d)
                  (s0\<lparr>gPollTimerMs := d,
                      gTicksRequired := (if sint r < 0 then - r else r)\<rparr>)))
                 \<lparr>gTicksElapsed := 1\<rparr>"
    then have "gTicksElapsed s' = 1" and "gTicksRequired s' = (if sint r < 0 then - r else r)"
      by (simp_all add: async_fields)
    then show ?thesis
      using inc_le [of 0 "gTicksRequired s'"] by (simp add: counters_ordered_def)
  next
    assume "gTicksRequired s0 = 0"
      and "s' = setVariablesAfterMove (if sint r < 0 then - r else r)
                 (setStandby True (setStop (move_loop 0 (if sint r < 0 then - r else r) s0)))"
    then have "gTicksRequired s' = 0"
      by (simp add: sync_fields)
    then show ?thesis by (simp add: counters_ordered_def)
  qed
qed

lemma counters_ordered_IDMessage [simp]:
  "counters_ordered (IDMessage m s) = counters_ordered s"
  by (simp add: counters_ordered_def call_defs)

lemma counters_ordered_MoveFocuser:
  assumes "MoveFocuser dir speed duration s = Inr (st, s')" and "counters_ordered s"
  shows "counters_ordered s'"
proof -
  from assms(2) have c: "counters_ordered (snd (SetFocuserSpeed speed s))"
    by (rule counters_ordered_SetFocuserSpeed)
  from assms(1) consider
    "s' = snd (SetFocuserSpeed speed s)"
    | "s' = IDMessage ''Error, requested position is out of range.''
              (snd (SetFocuserSpeed speed s))"
    | "move (MoveFocuser_relativeTicks dir speed duration) (snd (SetFocuserSpeed speed s))
          = Inr (st, s')"
    by (auto simp add: MoveFocuser_def Let_def split: prod.splits bool.splits if_splits)
  then show ?thesis
  proof cases
    case 1
    with c show ?thesis by simp
  next
    case 2
    with c show ?thesis by simp
  next
    case 3
    then show ?thesis by (rule counters_ordered_move)
  qed
qed

lemma counters_ordered_MoveAbsFocuser:
  assumes "MoveAbsFocuser t s = Inr (st, s')" and "counters_ordered s"
  shows "counters_ordered s'"
proof -
  from assms(1) consider "s' = s"
    | "s' = IDMessage ''Error, requested position is out of range.'' s"
    | r where "move r s = Inr (st, s')"
    by (auto simp add: MoveAbsFocuser_def split: if_splits sum.splits)
  then show ?thesis
  proof cases
    case 1
    with assms(2) show ?thesis by simp
  next
    case 2
    with assms(2) show ?thesis by simp
  next
    case 3
    then show ?thesis by (rule counters_ordered_move)
  qed
qed

lemma counters_ordered_MoveRelFocuser:
  assumes "MoveRelFocuser dir t s = Inr (st, s')" and "counters_ordered s"
  shows "counters_ordered s'"
  using assms
  by (auto simp add: MoveRelFocuser_def split: sum.splits intro: counters_ordered_MoveAbsFocuser)

lemma after_request_eq:
  "MoveAbsFocuser 30005 start = Inr (IPS_BUSY, after_request)"
  by (simp add: after_request_def MoveAbsFocuser_def move_def double_to_int32_def
      delay_of_speed_def double_to_uint16_def c_div_def AbortFocuser_def
      setVariablesAfterMove_def start_defs driver_defs call_defs more_defs Let_def)

lemma reachable_start: "reachable start"
  unfolding start_def by (rule reachable.startup)

lemma reachable_after_request: "reachable after_request"
  using reachable_start after_request_eq by (rule reachable.move_abs)

text \<open>
  While \<open>gTicksRequired\<close> is not zero, \<open>gTicksElapsed\<close> is at most \<open>gTicksRequired\<close> in every
  reachable state: \<open>TimerHit\<close> and \<open>AbortFocuser\<close> keep this, and \<open>move\<close> establishes it
  whenever it leaves \<open>gTicksRequired\<close> other than zero.
\<close>

lemma counters_ordered_reachable:
  "reachable s \<Longrightarrow> counters_ordered s"
proof (induction rule: reachable.induct)
  case (startup s)
  show ?case
    by (simp add: counters_ordered_def initProperties_def FocuserRob_def driver_defs call_defs)
next
  case (framework s t a r v c)
  then show ?case by (simp add: counters_ordered_def)
next
  case (connect s)
  then show ?case by (simp add: counters_ordered_def Connect_def call_defs)
next
  case (disconnect s)
  show ?case
    using counters_ordered_AbortFocuser [of s]
    by (simp add: counters_ordered_def Disconnect_def call_defs)
next
  case (set_speed s speed)
  then show ?case by (simp add: counters_ordered_SetFocuserSpeed)
next
  case (timer_hit s)
  then show ?case by (simp add: counters_ordered_TimerHit)
next
  case (abort s)
  show ?case by (rule counters_ordered_AbortFocuser)
next
  case (move_timed s dir speed duration st s')
  then show ?case by (blast intro: counters_ordered_MoveFocuser)
next
  case (move_abs s targetTicks st s')
  then show ?case by (blast intro: counters_ordered_MoveAbsFocuser)
next
  case (move_rel s dir ticks st s')
  then show ?case by (blast intro: counters_ordered_MoveRelFocuser)
qed

lemma after_request_fields:
  "gTicksRequired after_request = 5"
  "gTicksElapsed after_request = 1"
  "gDirectionIsOutward after_request = False"
  "isConnected after_request = True"
  "FocusAbsPos_value after_request = 30000"
  "FocusRelPos_value after_request = 0"
  by (simp_all add: after_request_def MoveAbsFocuser_def move_def double_to_int32_def
      delay_of_speed_def double_to_uint16_def c_div_def AbortFocuser_def
      setVariablesAfterMove_def start_defs driver_defs call_defs more_defs Let_def)

lemma zero_tick_eq: "MoveFocuser FOCUS_INWARD 100 5 start = Inr (IPS_BUSY, zero_tick)"
  by (simp add: zero_tick_def MoveFocuser_def MoveFocuser_relativeTicks_def SetFocuserSpeed_def
      eval_defs)

lemma zero_tick_fields:
  "gTicksRequired zero_tick = 0"
  "gTicksElapsed zero_tick = 1"
  "gPollTimerMs zero_tick = 10"
  "level_STBY zero_tick = True"
  "isConnected zero_tick = True"
  "FocusAbsPos_value zero_tick = 30000"
  "out zero_tick =
     out start @ [IDMessageEv ''Moving to requested position...''] @ direction_calls False
       @ [DigitalWrite STBY_TB6612FNG True, SetTimerEv 10] @ pulse_calls"
  by (simp_all add: zero_tick_def MoveFocuser_def MoveFocuser_relativeTicks_def
      SetFocuserSpeed_def eval_defs)

text \<open>
  C9 (the code differs). \<open>move\<close> starts a timer-driven move with \<open>gTicksElapsed = 1\<close> after
  one pulse, whatever the number of ticks. With zero ticks, as in
  \<open>MoveFocuser(FOCUS_INWARD, 100, 5)\<close> from the initial state, the request returns
  \<open>IPS_BUSY\<close>, sets the timer and issues a pulse, and leaves \<open>gTicksElapsed = 1\<close> above
  \<open>gTicksRequired = 0\<close> in a reachable state. The chip is out of standby, and \<open>TimerHit\<close>
  does nothing there, so the move is never finished by the timer.
\<close>

theorem zero_tick_move_breaks_counters:
  "MoveFocuser_relativeTicks FOCUS_INWARD 100 5 = 0
   \<and> MoveFocuser FOCUS_INWARD 100 5 start = Inr (IPS_BUSY, zero_tick)
   \<and> reachable zero_tick
   \<and> gTicksRequired zero_tick = 0 \<and> gTicksElapsed zero_tick = 1
   \<and> \<not> gTicksElapsed zero_tick \<le> gTicksRequired zero_tick
   \<and> out zero_tick =
       out start @ [IDMessageEv ''Moving to requested position...''] @ direction_calls False
         @ [DigitalWrite STBY_TB6612FNG True, SetTimerEv 10] @ pulse_calls
   \<and> level_STBY zero_tick
   \<and> TimerHit zero_tick = zero_tick"
proof -
  have t: "MoveFocuser_relativeTicks FOCUS_INWARD 100 5 = 0"
    by (simp add: MoveFocuser_relativeTicks_def c_div_def)
  have r: "reachable zero_tick"
    using reachable_start zero_tick_eq by (rule reachable.move_timed)
  have h: "TimerHit zero_tick = zero_tick"
    by (simp add: TimerHit_def zero_tick_fields)
  from t r h zero_tick_eq zero_tick_fields show ?thesis by simp
qed

lemma move_total:
  assumes "1 \<le> FocusSpeed_value s"
  shows "\<exists>st s'. move r s = Inr (st, s')"
proof (cases "1000 div FocusSpeed_value s < 10")
  case True
  then show ?thesis unfolding move_unfold [OF assms] Let_def by simp
next
  case False
  then show ?thesis unfolding move_unfold [OF assms] Let_def by simp
qed

text \<open>
  C8. In every reachable state the configured speed is at least 1. A request for speed
  zero is refused by \<open>SetFocuserSpeed\<close>, which leaves the speed as it is, and
  \<open>MoveFocuser\<close> with speed zero returns \<open>IPS_ALERT\<close> without calling \<open>move\<close>. So the quotient
  \<open>1000 / FocusSpeedN[0].value\<close> of \<open>move\<close> never has a zero divisor, whichever request
  leads to it.
\<close>

theorem speed_zero_rejected:
  assumes "reachable s"
  shows "1 \<le> FocusSpeed_value s
     \<and> \<not> fst (SetFocuserSpeed 0 s)
     \<and> FocusSpeed_value (snd (SetFocuserSpeed 0 s)) = FocusSpeed_value s
     \<and> MoveFocuser dir 0 duration s = Inr (IPS_ALERT, snd (SetFocuserSpeed 0 s))
     \<and> move relativeTicks s \<noteq> Inl Division_by_zero
     \<and> MoveFocuser dir speed duration s \<noteq> Inl Division_by_zero
     \<and> MoveAbsFocuser targetTicks s \<noteq> Inl Division_by_zero
     \<and> MoveRelFocuser dir ticks s \<noteq> Inl Division_by_zero"
proof -
  from assms have c: "configured s" by (rule reachable_configured)
  then have v: "1 \<le> FocusSpeed_value s" by (simp add: configured_def)
  have no_fault: "move r t \<noteq> Inl Division_by_zero" if "configured t" for r t
  proof -
    from that have "1 \<le> FocusSpeed_value t" by (simp add: configured_def)
    from move_total [OF this, of r] show ?thesis by auto
  qed
  have zero: "\<not> fst (SetFocuserSpeed 0 s)"
    "FocusSpeed_value (snd (SetFocuserSpeed 0 s)) = FocusSpeed_value s"
    using c by (simp_all add: SetFocuserSpeed_def configured_def call_defs)
  have timed0: "MoveFocuser dir 0 duration s = Inr (IPS_ALERT, snd (SetFocuserSpeed 0 s))"
  proof (cases "SetFocuserSpeed 0 s")
    case (Pair b s1)
    with zero(1) show ?thesis by (simp add: MoveFocuser_def)
  qed
  have c1: "configured (snd (SetFocuserSpeed speed s))"
    using c by (rule configured_SetFocuserSpeed)
  have timed: "MoveFocuser dir speed duration s \<noteq> Inl Division_by_zero"
  proof (cases "SetFocuserSpeed speed s")
    case (Pair b s1)
    with c1 have "configured s1" by simp
    from no_fault [OF this] Pair show ?thesis
      by (cases b) (simp_all add: MoveFocuser_def Let_def)
  qed
  have absolute: "MoveAbsFocuser t s \<noteq> Inl Division_by_zero" for t
    using no_fault [OF c]
    by (simp add: MoveAbsFocuser_def double_to_int32_def)
  have relative: "MoveRelFocuser dir ticks s \<noteq> Inl Division_by_zero"
    using absolute
    by (simp add: MoveRelFocuser_def double_to_uint32_def)
  from v zero timed0 no_fault [OF c] timed absolute relative show ?thesis by simp
qed

theorem speed_zero_rejected_witness:
  "reachable after_request
   \<and> FocusSpeed_value after_request = 100
   \<and> \<not> fst (SetFocuserSpeed 0 after_request)
   \<and> FocusSpeed_value (snd (SetFocuserSpeed 0 after_request)) = 100
   \<and> MoveFocuser FOCUS_INWARD 0 1000 after_request =
         Inr (IPS_ALERT, snd (SetFocuserSpeed 0 after_request))
   \<and> move 7 after_request \<noteq> Inl Division_by_zero"
proof -
  have "FocusSpeed_value after_request = 100"
    by (simp add: after_request_def MoveAbsFocuser_def move_def double_to_int32_def
      delay_of_speed_def double_to_uint16_def c_div_def AbortFocuser_def
      setVariablesAfterMove_def start_defs driver_defs call_defs more_defs Let_def)
  with reachable_after_request
    speed_zero_rejected [OF reachable_after_request, of FOCUS_INWARD 1000 7]
  show ?thesis by simp
qed

subsection \<open>Abort\<close>

text \<open>
  C6. Two aborts in a row: the second one returns true and leaves every member, every
  property field and every line as the first one left them; it only repeats its calls
  to the outside. In particular an abort with no move in progress, the chip stopped in
  standby and the three move properties idle returns true and changes nothing.
\<close>

theorem AbortFocuser_idempotent:
  "AbortFocuser (snd (AbortFocuser s)) = (True, emit abort_calls (snd (AbortFocuser s)))
   \<and> (gTicksRequired s = 0 \<and> stopped_in_standby s \<and> properties_idle s
        \<longrightarrow> AbortFocuser s = (True, emit abort_calls s))"
  by (simp add: AbortFocuser_def setVariablesAfterMove_def driver_defs call_defs Let_def
      abort_calls_def stopped_in_standby_def properties_idle_def)

theorem AbortFocuser_idempotent_witness:
  "gTicksRequired start = 0 \<and> stopped_in_standby start \<and> properties_idle start
   \<and> AbortFocuser start = (True, emit abort_calls start)"
  using AbortFocuser_idempotent [of start]
  by (simp add: start_defs driver_defs call_defs stopped_in_standby_def properties_idle_def)

lemma AbortFocuser_position:
  "0 < gTicksRequired s \<Longrightarrow>
     FocusAbsPos_value (snd (AbortFocuser s)) =
       FocusAbsPos_value s
         + sint (if gDirectionIsOutward s then - (gTicksRequired s - gTicksElapsed s)
                 else gTicksRequired s - gTicksElapsed s)"
  by (simp add: AbortFocuser_def setVariablesAfterMove_def driver_defs call_defs Let_def)

text \<open>
  C1 (the code differs). \<open>AbortFocuser\<close> passes \<open>gTicksRequired - gTicksElapsed\<close> to
  \<open>setVariablesAfterMove\<close>: the ticks that remain, not the ticks that elapsed. Example: a
  move of 5 inward ticks from 30000, two timer callbacks (3 ticks issued), then abort:
  the position becomes 30002 and the relative position 2, where 3 ticks have been
  issued.
\<close>

theorem AbortFocuser_adds_remaining_ticks:
  "MoveAbsFocuser 30005 start = Inr (IPS_BUSY, after_request)
   \<and> gTicksRequired (TimerHit (TimerHit after_request)) = 5
   \<and> gTicksElapsed (TimerHit (TimerHit after_request)) = 3
   \<and> gDirectionIsOutward (TimerHit (TimerHit after_request)) = False
   \<and> FocusAbsPos_value (TimerHit (TimerHit after_request)) = 30000
   \<and> FocusAbsPos_value (snd (AbortFocuser (TimerHit (TimerHit after_request)))) = 30002
   \<and> FocusRelPos_value (snd (AbortFocuser (TimerHit (TimerHit after_request)))) = 2
   \<and> gTicksRequired (snd (AbortFocuser (TimerHit (TimerHit after_request)))) = 0"
proof -
  have once: "gTicksRequired (TimerHit after_request) = 5"
    "gTicksElapsed (TimerHit after_request) = 2"
    "gDirectionIsOutward (TimerHit after_request) = False"
    "isConnected (TimerHit after_request) = True"
    "FocusAbsPos_value (TimerHit after_request) = 30000"
    by (simp_all add: TimerHit_def after_request_fields driver_defs call_defs)
  have twice: "gTicksRequired (TimerHit (TimerHit after_request)) = 5"
    "gTicksElapsed (TimerHit (TimerHit after_request)) = 3"
    "gDirectionIsOutward (TimerHit (TimerHit after_request)) = False"
    "FocusAbsPos_value (TimerHit (TimerHit after_request)) = 30000"
    by (simp_all add: TimerHit_def [of "TimerHit after_request"] once driver_defs call_defs)
  have aborted: "FocusAbsPos_value (snd (AbortFocuser (TimerHit (TimerHit after_request)))) = 30002"
    "FocusRelPos_value (snd (AbortFocuser (TimerHit (TimerHit after_request)))) = 2"
    "gTicksRequired (snd (AbortFocuser (TimerHit (TimerHit after_request)))) = 0"
    by (simp_all add: AbortFocuser_def setVariablesAfterMove_def twice driver_defs call_defs
        Let_def)
  from after_request_eq twice aborted show ?thesis by simp
qed

subsection \<open>Speed\<close>

text \<open>
  C7. While one of the timer, absolute position or relative position properties is busy,
  a request for a speed other than the configured one returns false after the message
  "Can't set the speed while the motor is running." and changes nothing else; no request
  made while busy changes the configured speed.
\<close>

theorem SetFocuserSpeed_busy:
  "busy s \<Longrightarrow>
     FocusSpeed_value (snd (SetFocuserSpeed speed s)) = FocusSpeed_value s
     \<and> (sint speed \<noteq> FocusSpeed_value s \<longrightarrow>
          SetFocuserSpeed speed s =
            (False, IDMessage ''Can't set the speed while the motor is running.'' s))"
  by (simp add: SetFocuserSpeed_def call_defs)

theorem SetFocuserSpeed_busy_witness:
  "busy (start\<lparr>FocusAbsPosNP_s := IPS_BUSY\<rparr>)
   \<and> FocusSpeed_value (snd (SetFocuserSpeed 50 (start\<lparr>FocusAbsPosNP_s := IPS_BUSY\<rparr>))) = 100
   \<and> SetFocuserSpeed 50 (start\<lparr>FocusAbsPosNP_s := IPS_BUSY\<rparr>) =
         (False, IDMessage ''Can't set the speed while the motor is running.''
                   (start\<lparr>FocusAbsPosNP_s := IPS_BUSY\<rparr>))"
  using SetFocuserSpeed_busy [of "start\<lparr>FocusAbsPosNP_s := IPS_BUSY\<rparr>" 50]
  by (simp add: busy_def start_defs driver_defs call_defs)

subsection \<open>Requests\<close>

lemma MoveAbsFocuser_at_position:
  "uint targetTicks = FocusAbsPos_value s \<Longrightarrow> MoveAbsFocuser targetTicks s = Inr (IPS_ALERT, s)"
  by (simp add: MoveAbsFocuser_def)

text \<open>
  C3 (the code differs). A request for the current position does nothing, but the
  result is \<open>IPS_ALERT\<close>, the initial value of \<open>returnState\<close>, not \<open>IPS_OK\<close>.
\<close>

theorem MoveAbsFocuser_current_position_alert:
  "FocusAbsPos_value start = 30000 \<and> MoveAbsFocuser 30000 start = Inr (IPS_ALERT, start)"
  by (simp add: MoveAbsFocuser_def start_defs driver_defs call_defs)

lemma MoveFocuser_relativeTicks_outward:
  "MoveFocuser_relativeTicks FOCUS_OUTWARD speed duration = 0"
  by (simp add: MoveFocuser_relativeTicks_def Let_def)

text \<open>
  C2 (the code differs). In \<open>MoveFocuser\<close> the outward direction executes
  \<open>relativeTicks -= relativeTicks\<close>, which gives zero whatever the speed and duration.
  Example: 200 ticks per second for 1000 ms is 200 ticks inward, and an outward request
  with the same speed and duration returns \<open>IPS_OK\<close> with the position still 30000.
\<close>

theorem MoveFocuser_outward_stays:
  "MoveFocuser_relativeTicks FOCUS_INWARD 200 1000 = 200
   \<and> MoveFocuser_relativeTicks FOCUS_OUTWARD 200 1000 = 0
   \<and> FocusAbsPos_value start = 30000
   \<and> (\<exists>s'. MoveFocuser FOCUS_OUTWARD 200 1000 start = Inr (IPS_OK, s')
          \<and> FocusAbsPos_value s' = 30000 \<and> FocusRelPos_value s' = 0)"
proof -
  have inward: "MoveFocuser_relativeTicks FOCUS_INWARD 200 1000 = 200"
    by (simp add: MoveFocuser_relativeTicks_def Let_def c_div_def)
  have speed: "SetFocuserSpeed 200 start =
      (True, IDSetNumber FocusSpeedNP (Some ''Speed set.'')
               (start\<lparr>FocusSpeed_value := 200, FocusSpeedNP_s := IPS_OK\<rparr>))"
    by (simp add: SetFocuserSpeed_def busy_def start_defs driver_defs call_defs)
  have pos: "FocusAbsPos_value start = 30000" "FocusAbsPos_min start = 0"
    "FocusAbsPos_max start = 60000"
    by (simp_all add: start_defs driver_defs call_defs)
  have "\<exists>s'. move 0 (IDSetNumber FocusSpeedNP (Some ''Speed set.'')
               (start\<lparr>FocusSpeed_value := 200, FocusSpeedNP_s := IPS_OK\<rparr>)) = Inr (IPS_OK, s')
          \<and> FocusAbsPos_value s' = 30000 \<and> FocusRelPos_value s' = 0"
    by (simp add: move_def delay_of_speed_def double_to_uint16_def c_div_def move_loop_eq
        AbortFocuser_def setVariablesAfterMove_def start_defs driver_defs call_defs more_defs
        Let_def)
  with speed pos have "\<exists>s'. MoveFocuser FOCUS_OUTWARD 200 1000 start = Inr (IPS_OK, s')
          \<and> FocusAbsPos_value s' = 30000 \<and> FocusRelPos_value s' = 0"
    by (simp add: MoveFocuser_def MoveFocuser_relativeTicks_outward Let_def call_defs)
  with inward pos show ?thesis by (simp add: MoveFocuser_relativeTicks_outward)
qed

subsection \<open>Rejected requests\<close>

lemma unmoved_IDMessage: "unmoved s (IDMessage m s)"
  by (simp add: unmoved_def call_defs)

lemma unmoved_SetFocuserSpeed: "unmoved s (snd (SetFocuserSpeed speed s))"
  by (simp add: SetFocuserSpeed_def unmoved_def call_defs)

lemma unmoved_trans: "unmoved a b \<Longrightarrow> unmoved b c \<Longrightarrow> unmoved a c"
  by (simp add: unmoved_def)

lemma SetFocuserSpeed_bounds:
  "FocusAbsPos_value (snd (SetFocuserSpeed speed s)) = FocusAbsPos_value s"
  "FocusAbsPos_min (snd (SetFocuserSpeed speed s)) = FocusAbsPos_min s"
  "FocusAbsPos_max (snd (SetFocuserSpeed speed s)) = FocusAbsPos_max s"
  by (simp_all add: SetFocuserSpeed_def call_defs)

lemma MoveFocuser_speed_refused:
  assumes "\<not> fst (SetFocuserSpeed speed s)"
  shows "MoveFocuser dir speed duration s = Inr (IPS_ALERT, snd (SetFocuserSpeed speed s))"
proof (cases "SetFocuserSpeed speed s")
  case (Pair b s1)
  with assms show ?thesis by (simp add: MoveFocuser_def)
qed

lemma MoveFocuser_position_refused:
  assumes "fst (SetFocuserSpeed speed s)"
    and "FocusAbsPos_value s + sint (MoveFocuser_relativeTicks dir speed duration)
           < FocusAbsPos_min s
         \<or> FocusAbsPos_max s
           < FocusAbsPos_value s + sint (MoveFocuser_relativeTicks dir speed duration)"
  shows "MoveFocuser dir speed duration s =
           Inr (IPS_ALERT, IDMessage ''Error, requested position is out of range.''
                             (snd (SetFocuserSpeed speed s)))"
proof (cases "SetFocuserSpeed speed s")
  case (Pair b s1)
  with SetFocuserSpeed_bounds [of speed s] have
    "FocusAbsPos_value s1 = FocusAbsPos_value s" "FocusAbsPos_min s1 = FocusAbsPos_min s"
    "FocusAbsPos_max s1 = FocusAbsPos_max s"
    by simp_all
  with Pair assms show ?thesis by (auto simp add: MoveFocuser_def Let_def)
qed

lemma MoveAbsFocuser_refused:
  assumes "uint targetTicks < FocusAbsPos_min s \<or> FocusAbsPos_max s < uint targetTicks"
  shows "MoveAbsFocuser targetTicks s = Inr (IPS_ALERT, s)
         \<or> MoveAbsFocuser targetTicks s =
             Inr (IPS_ALERT, IDMessage ''Error, requested position is out of range.'' s)"
  using assms by (auto simp add: MoveAbsFocuser_def)

text \<open>
  C5. A move request that is rejected returns \<open>IPS_ALERT\<close> and leaves the position, the
  relative position, the standby line (and the other three lines and the variables of a
  move in progress) as they were. The rejections are: for \<open>MoveFocuser\<close>, a speed outside
  the range of the speed property (the configured speed being inside it), in particular
  speed zero when the minimum is at least 1, and a planned position outside the range of
  the position; for \<open>MoveAbsFocuser\<close>, a target outside the range; for \<open>MoveRelFocuser\<close>,
  a target that converts to \<open>uint32_t\<close> and lies outside the range.
\<close>

theorem rejected_move_changes_nothing:
  "(FocusSpeed_min s \<le> FocusSpeed_value s \<and> FocusSpeed_value s \<le> FocusSpeed_max s
      \<and> (sint speed < FocusSpeed_min s \<or> FocusSpeed_max s < sint speed)
     \<longrightarrow> (\<exists>s'. MoveFocuser dir speed duration s = Inr (IPS_ALERT, s') \<and> unmoved s s'))
   \<and> (sint speed = 0 \<and> 1 \<le> FocusSpeed_min s \<and> FocusSpeed_min s \<le> FocusSpeed_value s
     \<longrightarrow> (\<exists>s'. MoveFocuser dir speed duration s = Inr (IPS_ALERT, s') \<and> unmoved s s'))
   \<and> (fst (SetFocuserSpeed speed s)
      \<and> (FocusAbsPos_value s + sint (MoveFocuser_relativeTicks dir speed duration)
            < FocusAbsPos_min s
          \<or> FocusAbsPos_max s
            < FocusAbsPos_value s + sint (MoveFocuser_relativeTicks dir speed duration))
     \<longrightarrow> (\<exists>s'. MoveFocuser dir speed duration s = Inr (IPS_ALERT, s') \<and> unmoved s s'))
   \<and> (uint targetTicks < FocusAbsPos_min s \<or> FocusAbsPos_max s < uint targetTicks
     \<longrightarrow> (\<exists>s'. MoveAbsFocuser targetTicks s = Inr (IPS_ALERT, s') \<and> unmoved s s'))
   \<and> (\<forall>t. double_to_uint32
              (FocusAbsPos_value s + uint (ticks * (if dir = FOCUS_INWARD then - 1 else 1)))
            = Inr t
          \<and> (uint t < FocusAbsPos_min s \<or> FocusAbsPos_max s < uint t)
     \<longrightarrow> (\<exists>s'. MoveRelFocuser dir ticks s = Inr (IPS_ALERT, s') \<and> unmoved s s'))"
proof (intro conjI impI allI)
  assume "FocusSpeed_min s \<le> FocusSpeed_value s \<and> FocusSpeed_value s \<le> FocusSpeed_max s
      \<and> (sint speed < FocusSpeed_min s \<or> FocusSpeed_max s < sint speed)"
  then have "\<not> fst (SetFocuserSpeed speed s)"
    by (auto simp add: SetFocuserSpeed_def)
  then show "\<exists>s'. MoveFocuser dir speed duration s = Inr (IPS_ALERT, s') \<and> unmoved s s'"
    by (simp add: MoveFocuser_speed_refused unmoved_SetFocuserSpeed)
next
  assume "sint speed = 0 \<and> 1 \<le> FocusSpeed_min s \<and> FocusSpeed_min s \<le> FocusSpeed_value s"
  then have "\<not> fst (SetFocuserSpeed speed s)"
    by (auto simp add: SetFocuserSpeed_def)
  then show "\<exists>s'. MoveFocuser dir speed duration s = Inr (IPS_ALERT, s') \<and> unmoved s s'"
    by (simp add: MoveFocuser_speed_refused unmoved_SetFocuserSpeed)
next
  assume "fst (SetFocuserSpeed speed s)
      \<and> (FocusAbsPos_value s + sint (MoveFocuser_relativeTicks dir speed duration)
            < FocusAbsPos_min s
          \<or> FocusAbsPos_max s
            < FocusAbsPos_value s + sint (MoveFocuser_relativeTicks dir speed duration))"
  then have "MoveFocuser dir speed duration s =
           Inr (IPS_ALERT, IDMessage ''Error, requested position is out of range.''
                             (snd (SetFocuserSpeed speed s)))"
    by (simp add: MoveFocuser_position_refused)
  moreover have "unmoved s (IDMessage ''Error, requested position is out of range.''
                             (snd (SetFocuserSpeed speed s)))"
    using unmoved_SetFocuserSpeed unmoved_IDMessage by (rule unmoved_trans)
  ultimately show "\<exists>s'. MoveFocuser dir speed duration s = Inr (IPS_ALERT, s') \<and> unmoved s s'"
    by simp
next
  assume "uint targetTicks < FocusAbsPos_min s \<or> FocusAbsPos_max s < uint targetTicks"
  from MoveAbsFocuser_refused [OF this]
  show "\<exists>s'. MoveAbsFocuser targetTicks s = Inr (IPS_ALERT, s') \<and> unmoved s s'"
    using unmoved_IDMessage [of s] by (auto simp add: unmoved_def)
next
  fix t
  assume a: "double_to_uint32
              (FocusAbsPos_value s + uint (ticks * (if dir = FOCUS_INWARD then - 1 else 1)))
            = Inr t
          \<and> (uint t < FocusAbsPos_min s \<or> FocusAbsPos_max s < uint t)"
  then have "MoveRelFocuser dir ticks s = MoveAbsFocuser t s"
    by (simp add: MoveRelFocuser_def)
  moreover from a have "uint t < FocusAbsPos_min s \<or> FocusAbsPos_max s < uint t" by simp
  from MoveAbsFocuser_refused [OF this]
  have "\<exists>s'. MoveAbsFocuser t s = Inr (IPS_ALERT, s') \<and> unmoved s s'"
    using unmoved_IDMessage [of s] by (auto simp add: unmoved_def)
  ultimately show "\<exists>s'. MoveRelFocuser dir ticks s = Inr (IPS_ALERT, s') \<and> unmoved s s'"
    by simp
qed

theorem rejected_move_changes_nothing_witness:
  "(FocusSpeed_min start \<le> FocusSpeed_value start \<and> FocusSpeed_value start \<le> FocusSpeed_max start
      \<and> FocusSpeed_max start < sint (300 :: 32 word))
   \<and> (\<exists>s'. MoveFocuser FOCUS_INWARD 300 1000 start = Inr (IPS_ALERT, s') \<and> unmoved start s')
   \<and> (sint (0 :: 32 word) = 0 \<and> 1 \<le> FocusSpeed_min start
        \<and> FocusSpeed_min start \<le> FocusSpeed_value start)
   \<and> (\<exists>s'. MoveFocuser FOCUS_INWARD 0 1000 start = Inr (IPS_ALERT, s') \<and> unmoved start s')
   \<and> (fst (SetFocuserSpeed 100 near_end)
        \<and> FocusAbsPos_max near_end
             < FocusAbsPos_value near_end + sint (MoveFocuser_relativeTicks FOCUS_INWARD 100 1000))
   \<and> (\<exists>s'. MoveFocuser FOCUS_INWARD 100 1000 near_end = Inr (IPS_ALERT, s')
          \<and> unmoved near_end s')
   \<and> FocusAbsPos_max start < uint (70000 :: 32 word)
   \<and> (\<exists>s'. MoveAbsFocuser 70000 start = Inr (IPS_ALERT, s') \<and> unmoved start s')
   \<and> (double_to_uint32
         (FocusAbsPos_value start + uint ((40000 :: 32 word) * (if FOCUS_OUTWARD = FOCUS_INWARD then - 1 else 1)))
         = Inr 70000
        \<and> FocusAbsPos_max start < uint (70000 :: 32 word))
   \<and> (\<exists>s'. MoveRelFocuser FOCUS_OUTWARD 40000 start = Inr (IPS_ALERT, s') \<and> unmoved start s')"
proof -
  have f: "FocusSpeed_min start = 1" "FocusSpeed_value start = 100" "FocusSpeed_max start = 255"
    "FocusAbsPos_max start = 60000" "FocusAbsPos_value start = 30000"
    by (simp_all add: start_defs driver_defs call_defs)
  have g: "fst (SetFocuserSpeed 100 near_end)" "FocusAbsPos_max near_end = 60000"
    "FocusAbsPos_value near_end = 59999"
    "MoveFocuser_relativeTicks FOCUS_INWARD 100 1000 = 100"
    by (simp_all add: near_end_def SetFocuserSpeed_def MoveFocuser_relativeTicks_def c_div_def
        start_defs driver_defs call_defs)
  have h: "double_to_uint32
         (FocusAbsPos_value start + uint ((40000 :: 32 word) * (if FOCUS_OUTWARD = FOCUS_INWARD then - 1 else 1)))
         = Inr 70000"
    by (simp add: double_to_uint32_def f)
  show ?thesis
    using rejected_move_changes_nothing [of start 300 FOCUS_INWARD 1000 70000 40000]
      rejected_move_changes_nothing [of start 0 FOCUS_INWARD 1000 70000 40000]
      rejected_move_changes_nothing [of near_end 100 FOCUS_INWARD 1000 70000 40000]
      rejected_move_changes_nothing [of start 300 FOCUS_OUTWARD 1000 70000 40000]
    by (simp add: f g h double_to_uint32_def)
qed

lemma uint_minus32:
  fixes ticks :: "32 word"
  assumes "0 < uint ticks"
  shows "uint (- ticks) = 2 ^ 32 - uint ticks"
proof -
  have "uint ticks < 2 ^ 32" using uint_lt2p [of ticks] by simp
  with assms have "(- uint ticks) mod 2 ^ 32 = 2 ^ 32 - uint ticks"
    by (simp add: zmod_zminus1_eq_if)
  then show ?thesis by (simp add: uint_word_ariths)
qed

lemma outward_request_eq: "MoveAbsFocuser 0 start = Inr (IPS_BUSY, outward_request)"
  by (simp add: outward_request_def eval_defs)

lemma outward_request_fields:
  "gTicksRequired outward_request = 30000"
  "gTicksElapsed outward_request = 1"
  "gDirectionIsOutward outward_request = True"
  "FocusAbsPos_value outward_request = 30000"
  "FocusAbsPos_min outward_request = 0"
  "FocusAbsPos_max outward_request = 60000"
  "FocusSpeed_value outward_request = 100"
  by (simp_all add: outward_request_def eval_defs)


lemma replaced_request_eq:
  "MoveAbsFocuser 1 outward_request = Inr (IPS_BUSY, replaced_request)"
  by (simp add: replaced_request_def outward_request_def eval_defs)

lemma below_minimum_fields:
  "FocusAbsPos_value below_minimum = - 29997"
  "FocusAbsPos_min below_minimum = 0"
  "FocusAbsPos_max below_minimum = 60000"
  "FocusSpeed_value below_minimum = 100"
  "gTicksRequired below_minimum = 0"
  by (simp_all add: below_minimum_def replaced_request_def outward_request_def eval_defs)

lemma reachable_below_minimum: "reachable below_minimum"
proof -
  have "reachable outward_request"
    using reachable_start outward_request_eq by (rule reachable.move_abs)
  then have "reachable replaced_request"
    using replaced_request_eq by (rule reachable.move_abs)
  then show ?thesis
    unfolding below_minimum_def by (rule reachable.abort)
qed

text \<open>
  C10 as stated fails where the position is negative. Such a state is reachable: a
  request to go to 0, replaced while in progress by a request to go to 1, then aborted,
  leaves the position at -29997. There \<open>ticks = 2^32 - 60001\<close> is greater than the
  position and smaller than \<open>2^32 - 60000\<close>, the target is 30004, inside the range, and
  the request is accepted: \<open>IPS_BUSY\<close>, with 60001 ticks required.
\<close>

theorem inward_from_below_minimum_accepted:
  "reachable below_minimum
   \<and> FocusAbsPos_value below_minimum = - 29997
   \<and> FocusAbsPos_max below_minimum = 60000
   \<and> FocusAbsPos_value below_minimum < uint (4294907295 :: 32 word)
   \<and> uint (4294907295 :: 32 word) < 2 ^ 32 - 60000
   \<and> double_to_uint32 (FocusAbsPos_value below_minimum + uint ((4294907295 :: 32 word) * - 1))
       = Inr 30004
   \<and> map_sum id fst (MoveRelFocuser FOCUS_INWARD 4294907295 below_minimum) = Inr IPS_BUSY
   \<and> gTicksRequired (snd (projr (MoveRelFocuser FOCUS_INWARD 4294907295 below_minimum))) = 60001"
proof -
  have conv: "double_to_uint32
      (FocusAbsPos_value below_minimum + uint ((4294907295 :: 32 word) * - 1)) = Inr 30004"
    by (simp add: double_to_uint32_def below_minimum_fields)
  have speed: "1 \<le> FocusSpeed_value below_minimum"
    by (simp add: below_minimum_fields)
  have "MoveRelFocuser FOCUS_INWARD 4294907295 below_minimum = MoveAbsFocuser 30004 below_minimum"
    using conv by (simp add: MoveRelFocuser_def)
  also have "\<dots> = move 60001 below_minimum"
    by (simp add: MoveAbsFocuser_def double_to_int32_def below_minimum_fields)
  finally have m: "MoveRelFocuser FOCUS_INWARD 4294907295 below_minimum = move 60001 below_minimum" .
  have "map_sum id fst (move 60001 below_minimum) = Inr IPS_BUSY"
    and "gTicksRequired (snd (projr (move 60001 below_minimum))) = 60001"
    unfolding move_unfold [OF speed] Let_def
    by (simp_all add: below_minimum_fields async_fields)
  with m conv reachable_below_minimum show ?thesis
    by (simp add: below_minimum_fields)
qed

text \<open>
  C10, amended. \<open>MoveRelFocuser(FOCUS_INWARD, ticks)\<close> with the position not negative, the
  maximum at most 60000, \<open>ticks\<close> greater than the position and smaller than
  \<open>2^32 - 60000\<close>: \<open>ticks * -1\<close> wraps to \<open>2^32 - ticks\<close> in \<open>uint32_t\<close>, the target is
  \<open>position + 2^32 - ticks\<close>, which fits \<open>uint32_t\<close> and is above the maximum, and the
  request returns \<open>IPS_ALERT\<close> after the message, with the position unchanged.
\<close>

theorem inward_beyond_position_rejected:
  assumes "0 \<le> FocusAbsPos_value s" and "FocusAbsPos_max s \<le> 60000"
    and "FocusAbsPos_value s < uint ticks" and "uint ticks < 2 ^ 32 - 60000"
  shows "\<exists>targetTicks.
           double_to_uint32 (FocusAbsPos_value s + uint (ticks * - 1)) = Inr targetTicks
           \<and> uint targetTicks = FocusAbsPos_value s + 2 ^ 32 - uint ticks
           \<and> FocusAbsPos_max s < uint targetTicks
           \<and> MoveRelFocuser FOCUS_INWARD ticks s =
                 Inr (IPS_ALERT, IDMessage ''Error, requested position is out of range.'' s)
           \<and> FocusAbsPos_value (IDMessage ''Error, requested position is out of range.'' s)
                 = FocusAbsPos_value s"
proof -
  define v where "v = FocusAbsPos_value s + 2 ^ 32 - uint ticks"
  from assms have pos: "0 < uint ticks" by linarith
  have wrap: "uint (- ticks) = 2 ^ 32 - uint ticks"
    using pos by (rule uint_minus32)
  from assms have range: "0 \<le> v" "v < 2 ^ 32" "FocusAbsPos_max s < v" "v \<noteq> FocusAbsPos_value s"
    by (simp_all add: v_def)
  then have u: "uint (word_of_int v :: 32 word) = v"
    by (simp add: uint_word_of_int)
  have conv: "double_to_uint32 (FocusAbsPos_value s + uint (ticks * - 1)) = Inr (word_of_int v)"
    using range by (simp add: double_to_uint32_def wrap v_def)
  have "MoveAbsFocuser (word_of_int v) s =
          Inr (IPS_ALERT, IDMessage ''Error, requested position is out of range.'' s)"
    using range by (simp add: MoveAbsFocuser_def u)
  with conv have "MoveRelFocuser FOCUS_INWARD ticks s =
          Inr (IPS_ALERT, IDMessage ''Error, requested position is out of range.'' s)"
    by (simp add: MoveRelFocuser_def)
  with conv u range show ?thesis
    by (simp add: v_def call_defs)
qed

theorem inward_beyond_position_rejected_witness:
  "0 \<le> FocusAbsPos_value start \<and> FocusAbsPos_max start \<le> 60000
   \<and> FocusAbsPos_value start < uint (30001 :: 32 word)
   \<and> uint (30001 :: 32 word) < 2 ^ 32 - 60000
   \<and> double_to_uint32 (FocusAbsPos_value start + uint ((30001 :: 32 word) * - 1))
       = Inr 4294967295
   \<and> MoveRelFocuser FOCUS_INWARD 30001 start =
         Inr (IPS_ALERT, IDMessage ''Error, requested position is out of range.'' start)"
proof -
  have f: "FocusAbsPos_max start = 60000" "FocusAbsPos_value start = 30000"
    by (simp_all add: start_defs driver_defs call_defs)
  have c: "double_to_uint32 (FocusAbsPos_value start + uint ((30001 :: 32 word) * - 1))
       = Inr 4294967295"
    by (simp add: double_to_uint32_def f)
  from inward_beyond_position_rejected [of start 30001] c show ?thesis
    by (simp add: f)
qed

end
